theory Spec2Isabelle
  imports Main "HOL-Library.Word"
begin

section \<open>JavaScript strings and values\<close>

text \<open>
  A JavaScript string is a sequence of UTF-16 code units; \<open>length\<close> and \<open>slice\<close> count
  code units. ASCII text of the source is embedded with \<open>lit\<close>.
\<close>

type_synonym jsstring = "16 word list"

definition lit :: "string \<Rightarrow> jsstring" where
  "lit s = map of_char s"

text \<open>Decimal rendering of a non-negative integer, as a template literal renders it.\<close>

fun show_nat :: "nat \<Rightarrow> jsstring" where
  "show_nat n =
     (if n < 10 then [of_nat (48 + n)]
      else show_nat (n div 10) @ [of_nat (48 + n mod 10)])"

text \<open>
  The values \<open>JSON.parse\<close> produces. Numbers are IEEE doubles in the program; they are
  kept opaque here (type \<open>'n\<close>), and what the program needs of them is a parameter of
  the environment below. A possibly \<open>undefined\<close> value is an \<open>option\<close>.
  A \<open>JObject\<close> lists the own properties of the object.
\<close>

datatype 'n json =
    JNull
  | JBool bool
  | JNum 'n
  | JString jsstring
  | JArray "'n json list"
  | JObject "(jsstring \<times> 'n json) list"

datatype error_class = PlainError | TypeError | SyntaxError

datatype error = JsError error_class (message: jsstring)

text \<open>Faults the engine raises by itself; the wording of their messages is the engine's.\<close>

datatype fault = PropertyOfNull jsstring | NotAFunction jsstring | ObjectToPrimitive

section \<open>The outside world\<close>

record request =
  req_url :: jsstring
  req_method :: jsstring
  req_headers :: "(jsstring \<times> jsstring) list"
  req_body :: "jsstring option"

text \<open>\<open>resp_text\<close> is the outcome of \<open>await resp.text()\<close>, which may reject.\<close>

record response =
  resp_status :: nat
  resp_text :: "error + jsstring"

text \<open>The effects a tool call performs, in the order it performs them.\<close>

datatype event =
    Fetch request
  | SetTimeout nat
  | ExecSync jsstring nat jsstring

text \<open>
  Everything the program takes from outside: the three configuration settings (the port
  as the text the template literal renders for it), the built-ins \<open>JSON.parse\<close>,
  \<open>JSON.stringify\<close> (compact, and with indent 2), number primitives, the engine's
  messages, and the two channels. A channel answers depending on everything done so far.
\<close>

record 'n env =
  UE_HOST :: jsstring
  UE_PORT :: jsstring
  UE_SSH_USER :: jsstring
  JSON_parse :: "jsstring \<Rightarrow> error + 'n json"
  JSON_stringify :: "'n json \<Rightarrow> jsstring"
  JSON_stringify_indent :: "'n json \<Rightarrow> jsstring"
  Number_truthy :: "'n \<Rightarrow> bool"
  Number_toString :: "'n \<Rightarrow> jsstring"
  Number_of_nat :: "nat \<Rightarrow> 'n"
  engine_message :: "fault \<Rightarrow> jsstring"
  fetch :: "event list \<Rightarrow> request \<Rightarrow> error + response"
  execSync :: "event list \<Rightarrow> jsstring \<Rightarrow> error + jsstring"

definition UE_BASE :: "'n env \<Rightarrow> jsstring" where
  "UE_BASE env = lit ''http://'' @ UE_HOST env @ lit '':'' @ UE_PORT env"

definition RESULT_FILE :: jsstring where
  "RESULT_FILE = lit ''C:/tmp/nora_mcp_result.json''"

section \<open>JavaScript primitives the source relies on\<close>

text \<open>\<open>resp.ok\<close>: the status is in the range 200-299.\<close>

definition resp_ok :: "response \<Rightarrow> bool" where
  "resp_ok r \<longleftrightarrow> 200 \<le> resp_status r \<and> resp_status r \<le> 299"

text \<open>Truthiness, as \<open>if (x)\<close>, \<open>x || y\<close> and \<open>x ? a : b\<close> test it.\<close>

fun truthy :: "'n env \<Rightarrow> 'n json option \<Rightarrow> bool" where
  "truthy env None = False"
| "truthy env (Some JNull) = False"
| "truthy env (Some (JBool b)) = b"
| "truthy env (Some (JNum n)) = Number_truthy env n"
| "truthy env (Some (JString s)) = (s \<noteq> [])"
| "truthy env (Some (JArray xs)) = True"
| "truthy env (Some (JObject fs)) = True"

fun join :: "jsstring \<Rightarrow> jsstring list \<Rightarrow> jsstring" where
  "join sep [] = []"
| "join sep [x] = x"
| "join sep (x # y # ys) = x @ sep @ join sep (y # ys)"

text \<open>
  The conversion to a string that \<open>new Error(v)\<close> applies to its argument. An array is
  joined with commas, \<open>null\<close> elements giving the empty string, and the first element
  whose conversion throws ends the loop. An object gives \<open>[object Object]\<close>, unless it
  has an own property \<open>toString\<close>: out of \<open>JSON.parse\<close> that property is no function,
  the inherited \<open>valueOf\<close> (or an own one, no function either) yields no primitive, and
  the conversion throws a \<open>TypeError\<close>.
\<close>

fun ToString :: "'n env \<Rightarrow> 'n json \<Rightarrow> error + jsstring"
  and ToString_elements :: "'n env \<Rightarrow> 'n json list \<Rightarrow> error + jsstring list" where
  "ToString env JNull = Inr (lit ''null'')"
| "ToString env (JBool b) = Inr (if b then lit ''true'' else lit ''false'')"
| "ToString env (JNum n) = Inr (Number_toString env n)"
| "ToString env (JString s) = Inr s"
| "ToString env (JArray xs) =
     (case ToString_elements env xs of
        Inl e \<Rightarrow> Inl e
      | Inr ss \<Rightarrow> Inr (join (lit '','') ss))"
| "ToString env (JObject fs) =
     (if map_of fs (lit ''toString'') \<noteq> None
      then Inl (JsError TypeError (engine_message env ObjectToPrimitive))
      else Inr (lit ''[object Object]''))"
| "ToString_elements env [] = Inr []"
| "ToString_elements env (x # xs) =
     (case (case x of JNull \<Rightarrow> Inr [] | _ \<Rightarrow> ToString env x) of
        Inl e \<Rightarrow> Inl e
      | Inr s \<Rightarrow>
          (case ToString_elements env xs of
             Inl e \<Rightarrow> Inl e
           | Inr ss \<Rightarrow> Inr (s # ss)))"

text \<open>
  Property access \<open>v.k\<close>, for the keys the source reads (none of them is an own or
  inherited property of a string, number, boolean or array): reading a property of
  \<open>null\<close> throws, any other value without the key gives \<open>undefined\<close>.
\<close>

fun get_prop :: "'n env \<Rightarrow> 'n json \<Rightarrow> jsstring \<Rightarrow> error + 'n json option" where
  "get_prop env JNull k = Inl (JsError TypeError (engine_message env (PropertyOfNull k)))"
| "get_prop env (JObject fs) k = Inr (map_of fs k)"
| "get_prop env v k = Inr None"

section \<open>HTTP helper\<close>

text \<open>The arguments of the \<open>fetch\<close> call in \<open>ue\<close>.\<close>

definition ue_request :: "'n env \<Rightarrow> jsstring \<Rightarrow> jsstring \<Rightarrow> 'n json option \<Rightarrow> request" where
  "ue_request env method path body =
     \<lparr>req_url = UE_BASE env @ path,
      req_method = method,
      req_headers = [(lit ''Content-Type'', lit ''application/json'')],
      req_body = map_option (JSON_stringify env) body\<rparr>"

text \<open>The message of the error \<open>ue\<close> throws on a response that is not ok.\<close>

definition ue_failure_message :: "jsstring \<Rightarrow> jsstring \<Rightarrow> nat \<Rightarrow> jsstring \<Rightarrow> jsstring" where
  "ue_failure_message method path status text_body =
     lit ''UE '' @ method @ lit '' '' @ path @ [0x20, 0x2192, 0x20] @ show_nat status
       @ lit '': '' @ take 500 text_body"

definition ue ::
  "'n env \<Rightarrow> jsstring \<Rightarrow> jsstring \<Rightarrow> 'n json option \<Rightarrow> event list
     \<Rightarrow> (error + 'n json) \<times> event list" where
  "ue env method path body tr =
     (let req = ue_request env method path body;
          tr' = tr @ [Fetch req]
      in case fetch env tr req of
           Inl e \<Rightarrow> (Inl e, tr')
         | Inr resp \<Rightarrow>
             (case resp_text resp of
                Inl e \<Rightarrow> (Inl e, tr')
              | Inr text_body \<Rightarrow>
                  if \<not> resp_ok resp then
                    (Inl (JsError PlainError
                       (ue_failure_message method path (resp_status resp) text_body)), tr')
                  else
                    (case JSON_parse env text_body of
                       Inr v \<Rightarrow> (Inr v, tr')
                     | Inl _ \<Rightarrow>
                         (Inr (if text_body \<noteq> [] then JString text_body else JNull), tr'))))"

section \<open>SSH helper\<close>

definition ssh_command :: "'n env \<Rightarrow> jsstring \<Rightarrow> jsstring" where
  "ssh_command env remotePath =
     (let escaped = map (\<lambda>c. if c = 0x2F then 0x5C else c) remotePath
      in lit ''ssh -o ConnectTimeout=3 -o StrictHostKeyChecking=no '' @ UE_SSH_USER env
           @ lit ''@'' @ UE_HOST env @ lit '' \"type '' @ escaped @ lit ''\"'')"

definition sshRead ::
  "'n env \<Rightarrow> jsstring \<Rightarrow> event list \<Rightarrow> (error + jsstring) \<times> event list" where
  "sshRead env remotePath tr =
     (let cmd = ssh_command env remotePath
      in (execSync env tr cmd, tr @ [ExecSync cmd 10000 (lit ''utf-8'')]))"

section \<open>Python execution with output capture\<close>

text \<open>The harness text, after \<open>trim()\<close> has removed the template's outer newlines.\<close>

definition wrapper :: "'n env \<Rightarrow> jsstring \<Rightarrow> jsstring" where
  "wrapper env code =
     lit ''import sys, io, json, traceback\<newline>''
     @ lit ''_nora_stdout = sys.stdout\<newline>''
     @ lit ''_nora_buf = io.StringIO()\<newline>''
     @ lit ''sys.stdout = _nora_buf\<newline>''
     @ lit ''_nora_err = None\<newline>''
     @ lit ''try:\<newline>''
     @ lit ''    exec('' @ JSON_stringify env (JString code) @ lit '')\<newline>''
     @ lit ''except Exception as e:\<newline>''
     @ lit ''    _nora_err = traceback.format_exc()\<newline>''
     @ lit ''finally:\<newline>''
     @ lit ''    sys.stdout = _nora_stdout\<newline>''
     @ lit ''    _nora_out = _nora_buf.getvalue()\<newline>''
     @ lit ''    with open(''
     @ JSON_stringify env (JString (map (\<lambda>c. if c = 0x5C then 0x2F else c) RESULT_FILE))
     @ lit '', '' @ [0x27] @ lit ''w'' @ [0x27] @ lit '', encoding='' @ [0x27] @ lit ''utf-8''
     @ [0x27] @ lit '') as f:\<newline>''
     @ lit ''        json.dump({\"output\": _nora_out, \"error\": _nora_err}, f)''"

text \<open>The body of the dispatch request.\<close>

definition harness_call :: "'n env \<Rightarrow> jsstring \<Rightarrow> 'n json" where
  "harness_call env code =
     JObject
       [(lit ''objectPath'',
           JString (lit ''/Script/PythonScriptPlugin.Default__PythonScriptLibrary'')),
        (lit ''functionName'', JString (lit ''ExecutePythonCommand'')),
        (lit ''parameters'', JObject [(lit ''PythonCommand'', JString (wrapper env code))])]"

definition execPythonWithOutput ::
  "'n env \<Rightarrow> jsstring \<Rightarrow> event list \<Rightarrow> (error + 'n json) \<times> event list" where
  "execPythonWithOutput env code tr =
     (case ue env (lit ''PUT'') (lit ''/remote/object/call'') (Some (harness_call env code)) tr of
        (Inl e, tr1) \<Rightarrow> (Inl e, tr1)
      | (Inr _, tr1) \<Rightarrow>
          (case sshRead env RESULT_FILE (tr1 @ [SetTimeout 200]) of
             (Inl e, tr3) \<Rightarrow> (Inl e, tr3)
           | (Inr raw, tr3) \<Rightarrow>
               (case JSON_parse env raw of
                  Inl e \<Rightarrow> (Inl e, tr3)
                | Inr result \<Rightarrow>
                    (case get_prop env result (lit ''error'') of
                       Inl e \<Rightarrow> (Inl e, tr3)
                     | Inr error_field \<Rightarrow>
                         if truthy env error_field then
                           (case error_field of
                              None \<Rightarrow> (Inl (JsError PlainError []), tr3)
                            | Some v \<Rightarrow>
                                (case ToString env v of
                                   Inl e \<Rightarrow> (Inl e, tr3)
                                 | Inr m \<Rightarrow> (Inl (JsError PlainError m), tr3)))
                         else
                           (case get_prop env result (lit ''output'') of
                              Inl e \<Rightarrow> (Inl e, tr3)
                            | Inr output_field \<Rightarrow>
                                (Inr (case output_field of
                                        None \<Rightarrow> JString (lit ''(no output)'')
                                      | Some v \<Rightarrow>
                                          if truthy env output_field then v
                                          else JString (lit ''(no output)'')), tr3))))))"

section \<open>Result helpers\<close>

datatype content_item = TextContent jsstring

text \<open>\<open>isError\<close> is \<open>True\<close> when the property is present (its only value is \<open>true\<close>).\<close>

record tool_result =
  content :: "content_item list"
  isError :: bool

definition ok :: "'n env \<Rightarrow> 'n json \<Rightarrow> tool_result" where
  "ok env data =
     \<lparr>content = [TextContent (case data of JString s \<Rightarrow> s | _ \<Rightarrow> JSON_stringify_indent env data)],
      isError = False\<rparr>"

text \<open>\<open>err\<close> is called with a caught \<open>Error\<close> object or with a string.\<close>

datatype err_arg = ErrorObject error | StringValue jsstring

definition err :: "err_arg \<Rightarrow> tool_result" where
  "err a =
     \<lparr>content = [TextContent (lit ''Error: '' @
         (case a of ErrorObject e \<Rightarrow> message e | StringValue s \<Rightarrow> s))],
      isError = True\<rparr>"


text \<open>
  Every tool handler is \<open>async (args) => { try { ... } catch (e) { return err(e); } }\<close>.
  The \<open>try\<close> block of a handler is modelled by a function with suffix \<open>_try\<close>, which
  either throws (\<open>Inl\<close>) or returns a tool result (\<open>Inr\<close>); \<open>try_catch\<close> is the
  \<open>catch\<close> clause.
\<close>

definition try_catch :: "(error + tool_result) \<times> event list \<Rightarrow> tool_result \<times> event list" where
  "try_catch r =
     (case r of
        (Inl e, tr) \<Rightarrow> (err (ErrorObject e), tr)
      | (Inr res, tr) \<Rightarrow> (res, tr))"

text \<open>\<open>return ok(await ue(method, path, body))\<close> inside a \<open>try\<close> block.\<close>

definition ok_ue ::
  "'n env \<Rightarrow> jsstring \<Rightarrow> jsstring \<Rightarrow> 'n json option \<Rightarrow> event list
     \<Rightarrow> (error + tool_result) \<times> event list" where
  "ok_ue env method path body tr =
     (case ue env method path body tr of
        (Inl e, tr') \<Rightarrow> (Inl e, tr')
      | (Inr v, tr') \<Rightarrow> (Inr (ok env v), tr'))"

section \<open>Helpers for object literals and array methods\<close>







section \<open>Tools\<close>

subsection \<open>ue_get_property\<close>

definition get_property_body :: "jsstring \<Rightarrow> jsstring \<Rightarrow> 'n json" where
  "get_property_body object_path property_name =
     JObject
       [(lit ''objectPath'', JString object_path),
        (lit ''access'', JString (lit ''READ_ACCESS'')),
        (lit ''propertyName'', JString property_name)]"

definition ue_get_property_try ::
  "'n env \<Rightarrow> jsstring \<Rightarrow> jsstring \<Rightarrow> event list \<Rightarrow> (error + tool_result) \<times> event list" where
  "ue_get_property_try env object_path property_name tr =
     ok_ue env (lit ''PUT'') (lit ''/remote/object/property'')
       (Some (get_property_body object_path property_name)) tr"

definition ue_get_property ::
  "'n env \<Rightarrow> jsstring \<Rightarrow> jsstring \<Rightarrow> event list \<Rightarrow> tool_result \<times> event list" where
  "ue_get_property env object_path property_name tr =
     try_catch (ue_get_property_try env object_path property_name tr)"

subsection \<open>ue_set_property\<close>

definition set_property_body :: "jsstring \<Rightarrow> jsstring \<Rightarrow> 'n json \<Rightarrow> 'n json" where
  "set_property_body object_path property_name parsed =
     JObject
       [(lit ''objectPath'', JString object_path),
        (lit ''access'', JString (lit ''WRITE_TRANSACTION_ACCESS'')),
        (lit ''propertyName'', JString property_name),
        (lit ''propertyValue'', parsed)]"

definition ue_set_property_try ::
  "'n env \<Rightarrow> jsstring \<Rightarrow> jsstring \<Rightarrow> jsstring \<Rightarrow> event list
     \<Rightarrow> (error + tool_result) \<times> event list" where
  "ue_set_property_try env object_path property_name val tr =
     (let parsed = (case JSON_parse env val of Inr v \<Rightarrow> v | Inl _ \<Rightarrow> JString val)
      in ok_ue env (lit ''PUT'') (lit ''/remote/object/property'')
           (Some (set_property_body object_path property_name parsed)) tr)"

definition ue_set_property ::
  "'n env \<Rightarrow> jsstring \<Rightarrow> jsstring \<Rightarrow> jsstring \<Rightarrow> event list \<Rightarrow> tool_result \<times> event list" where
  "ue_set_property env object_path property_name val tr =
     try_catch (ue_set_property_try env object_path property_name val tr)"

subsection \<open>ue_call_function\<close>

text \<open>
  \<open>parameters\<close> is optional (\<open>None\<close> is \<open>undefined\<close>); \<open>if (parameters)\<close> skips both
  \<open>undefined\<close> and the empty string. \<open>generate_transaction\<close> arrives with its default
  applied.
\<close>

definition call_function_body :: "jsstring \<Rightarrow> jsstring \<Rightarrow> 'n json \<Rightarrow> bool \<Rightarrow> 'n json" where
  "call_function_body object_path function_name params generate_transaction =
     JObject
       [(lit ''objectPath'', JString object_path),
        (lit ''functionName'', JString function_name),
        (lit ''parameters'', params),
        (lit ''generateTransaction'', JBool generate_transaction)]"

definition ue_call_function_try ::
  "'n env \<Rightarrow> jsstring \<Rightarrow> jsstring \<Rightarrow> jsstring option \<Rightarrow> bool \<Rightarrow> event list
     \<Rightarrow> (error + tool_result) \<times> event list" where
  "ue_call_function_try env object_path function_name parameters generate_transaction tr =
     (let call = (\<lambda>params.
            ok_ue env (lit ''PUT'') (lit ''/remote/object/call'')
              (Some (call_function_body object_path function_name params generate_transaction))
              tr)
      in case parameters of
           None \<Rightarrow> call (JObject [])
         | Some p \<Rightarrow>
             if p = [] then call (JObject [])
             else (case JSON_parse env p of
                     Inr v \<Rightarrow> call v
                   | Inl _ \<Rightarrow>
                       (Inr (err (StringValue (lit ''Invalid JSON in parameters: '' @ p))), tr)))"

definition ue_call_function ::
  "'n env \<Rightarrow> jsstring \<Rightarrow> jsstring \<Rightarrow> jsstring option \<Rightarrow> bool \<Rightarrow> event list
     \<Rightarrow> tool_result \<times> event list" where
  "ue_call_function env object_path function_name parameters generate_transaction tr =
     try_catch
       (ue_call_function_try env object_path function_name parameters generate_transaction tr)"

subsection \<open>ue_describe_object\<close>








subsection \<open>ue_search_assets\<close>







subsection \<open>ue_list_actors\<close>




subsection \<open>ue_exec_console\<close>




subsection \<open>ue_exec_python\<close>



subsection \<open>ue_batch\<close>

definition batch_body :: "'n json \<Rightarrow> 'n json" where
  "batch_body parsed = JObject [(lit ''requests'', parsed)]"

definition ue_batch_try ::
  "'n env \<Rightarrow> jsstring \<Rightarrow> event list \<Rightarrow> (error + tool_result) \<times> event list" where
  "ue_batch_try env requests tr =
     (case JSON_parse env requests of
        Inl _ \<Rightarrow> (Inr (err (StringValue (lit ''Invalid JSON array: '' @ take 200 requests))), tr)
      | Inr parsed \<Rightarrow>
          ok_ue env (lit ''PUT'') (lit ''/remote/batch'') (Some (batch_body parsed)) tr)"

definition ue_batch :: "'n env \<Rightarrow> jsstring \<Rightarrow> event list \<Rightarrow> tool_result \<times> event list" where
  "ue_batch env requests tr = try_catch (ue_batch_try env requests tr)"

subsection \<open>ue_remote_info\<close>



subsection \<open>The handlers of version 0.1.0 that differ (src/index.ts)\<close>





subsection \<open>The tool registry\<close>






section \<open>A sample environment\<close>

text \<open>
  A concrete environment on which the definitions can be run: numbers are the integers
  JavaScript prints in plain decimal (below \<open>10\<^sup>2\<^sup>1\<close> in absolute value), the
  serialisers cover the values of the examples (escaping the quote, the backslash and
  the newline), \<open>JSON.parse\<close> knows the few texts the examples use and rejects every
  other text, the endpoint answers by path, and the remote shell returns the file content
  given as parameter.
\<close>

definition sample_quote :: "jsstring \<Rightarrow> jsstring" where
  "sample_quote s =
     [0x22] @ concat (map (\<lambda>c. if c = 0x22 then [0x5C, 0x22]
                                else if c = 0x5C then [0x5C, 0x5C]
                                else if c = 0x0A then [0x5C, 0x6E]
                                else [c]) s) @ [0x22]"

definition show_int :: "int \<Rightarrow> jsstring" where
  "show_int i = (if i < 0 then lit ''-'' @ show_nat (nat (- i)) else show_nat (nat i))"

fun sample_stringify :: "int json \<Rightarrow> jsstring" where
  "sample_stringify JNull = lit ''null''"
| "sample_stringify (JBool b) = (if b then lit ''true'' else lit ''false'')"
| "sample_stringify (JNum n) = show_int n"
| "sample_stringify (JString s) = sample_quote s"
| "sample_stringify (JArray xs) = lit ''['' @ join (lit '','') (map sample_stringify xs) @ lit '']''"
| "sample_stringify (JObject fs) =
     lit ''{''
     @ join (lit '','')
         (map (\<lambda>kv. sample_quote (fst kv) @ lit '':'' @ sample_stringify (snd kv)) fs)
     @ lit ''}''"

fun sample_stringify_indent :: "nat \<Rightarrow> int json \<Rightarrow> jsstring" where
  "sample_stringify_indent i (JArray xs) =
     (if xs = [] then lit ''[]''
      else lit ''[\<newline>''
        @ join (lit '',\<newline>'')
            (map (\<lambda>x. replicate (i + 2) 0x20 @ sample_stringify_indent (i + 2) x) xs)
        @ lit ''\<newline>'' @ replicate i 0x20 @ lit '']'')"
| "sample_stringify_indent i (JObject fs) =
     (if fs = [] then lit ''{}''
      else lit ''{\<newline>''
        @ join (lit '',\<newline>'')
            (map (\<lambda>kv. replicate (i + 2) 0x20 @ sample_quote (fst kv) @ lit '': ''
                          @ sample_stringify_indent (i + 2) (snd kv)) fs)
        @ lit ''\<newline>'' @ replicate i 0x20 @ lit ''}'')"
| "sample_stringify_indent i v = sample_stringify v"

definition sample_texts :: "(jsstring \<times> int json) list" where
  "sample_texts =
     [(lit ''{\"output\": \"\", \"error\": null}'',
         JObject [(lit ''output'', JString []), (lit ''error'', JNull)]),
      (lit ''{\"output\": \"hi'' @ [0x5C] @ lit ''n\", \"error\": null}'',
         JObject [(lit ''output'', JString (lit ''hi\<newline>'')), (lit ''error'', JNull)]),
      (lit ''{\"output\": \"partial\", \"error\": \"\"}'',
         JObject [(lit ''output'', JString (lit ''partial'')), (lit ''error'', JString [])]),
      (lit ''{\"output\": \"\", \"error\": \"NameError: name x is not defined\"}'',
         JObject [(lit ''output'', JString []),
                  (lit ''error'', JString (lit ''NameError: name x is not defined''))]),
      (lit ''{\"X\":1,\"Y\":2}'', JObject [(lit ''X'', JNum 1), (lit ''Y'', JNum 2)]),
      (lit ''42'', JNum 42),
      (lit ''null'', JNull),
      (lit ''{}'', JObject [])]"

definition sample_parse :: "jsstring \<Rightarrow> error + int json" where
  "sample_parse s =
     (case map_of sample_texts s of
        Some v \<Rightarrow> Inr v
      | None \<Rightarrow> Inl (JsError SyntaxError (lit ''Unexpected token or end of JSON input'')))"

definition sample_base :: jsstring where
  "sample_base = lit ''http://127.0.0.1:30010''"

definition sample_fetch :: "event list \<Rightarrow> request \<Rightarrow> error + response" where
  "sample_fetch tr req =
     (if req_url req = sample_base @ lit ''/remote/object/property'' then
        Inr \<lparr>resp_status = 200, resp_text = Inr (lit ''{\"X\":1,\"Y\":2}'')\<rparr>
      else if req_url req = sample_base @ lit ''/remote/object/call'' then
        Inr \<lparr>resp_status = 200, resp_text = Inr (lit ''{}'')\<rparr>
      else if req_url req = sample_base @ lit ''/remote/batch'' then
        Inr \<lparr>resp_status = 200, resp_text = Inr (lit ''{}'')\<rparr>
      else if req_url req = sample_base @ lit ''/remote/object/describe'' then
        Inr \<lparr>resp_status = 200, resp_text = Inr []\<rparr>
      else if req_url req = sample_base @ lit ''/remote/search/assets'' then
        Inr \<lparr>resp_status = 200, resp_text = Inr (lit ''OK'')\<rparr>
      else if req_url req = sample_base @ lit ''/remote/info'' then
        Inr \<lparr>resp_status = 404, resp_text = Inr (replicate 600 0x78)\<rparr>
      else Inl (JsError TypeError (lit ''fetch failed'')))"

definition sample_engine_message :: "fault \<Rightarrow> jsstring" where
  "sample_engine_message f =
     (case f of
        PropertyOfNull k \<Rightarrow>
          lit ''Cannot read properties of null (reading '' @ [0x27] @ k @ [0x27] @ lit '')''
      | NotAFunction w \<Rightarrow> w @ lit '' is not a function''
      | ObjectToPrimitive \<Rightarrow> lit ''Cannot convert object to primitive value'')"

definition sample_env :: "jsstring \<Rightarrow> int env" where
  "sample_env file_content =
     \<lparr>UE_HOST = lit ''127.0.0.1'',
      UE_PORT = lit ''30010'',
      UE_SSH_USER = lit ''claude'',
      JSON_parse = sample_parse,
      JSON_stringify = sample_stringify,
      JSON_stringify_indent = sample_stringify_indent 0,
      Number_truthy = (\<lambda>n. n \<noteq> 0),
      Number_toString = show_int,
      Number_of_nat = int,
      engine_message = sample_engine_message,
      fetch = sample_fetch,
      execSync = (\<lambda>tr cmd. Inr file_content)\<rparr>"





section \<open>Names for the steps of the capture protocol\<close>

text \<open>The request of the dispatch step, and the three effects of a complete capture.\<close>

definition dispatch_request :: "'n env \<Rightarrow> jsstring \<Rightarrow> request" where
  "dispatch_request env code =
     ue_request env (lit ''PUT'') (lit ''/remote/object/call'') (Some (harness_call env code))"

definition capture_events :: "'n env \<Rightarrow> jsstring \<Rightarrow> event list" where
  "capture_events env code =
     [Fetch (dispatch_request env code), SetTimeout 200,
      ExecSync (ssh_command env RESULT_FILE) 10000 (lit ''utf-8'')]"

section \<open>The remote invoker\<close>

lemma ue_trace: "snd (ue env m p b tr) = tr @ [Fetch (ue_request env m p b)]"
  by (simp add: ue_def Let_def split: sum.splits)

lemma ue_success:
  assumes "fetch env tr (ue_request env m p b) = Inr resp"
    and "resp_text resp = Inr body" and "resp_ok resp"
  shows "ue env m p b tr =
     (Inr (case JSON_parse env body of
             Inr v \<Rightarrow> v
           | Inl _ \<Rightarrow> if body \<noteq> [] then JString body else JNull),
      tr @ [Fetch (ue_request env m p b)])"
  using assms by (simp add: ue_def Let_def split: sum.splits)

lemma ue_failure:
  assumes "fetch env tr (ue_request env m p b) = Inr resp"
    and "resp_text resp = Inr body" and "\<not> resp_ok resp"
  shows "ue env m p b tr =
     (Inl (JsError PlainError (ue_failure_message m p (resp_status resp) body)),
      tr @ [Fetch (ue_request env m p b)])"
  using assms by (simp add: ue_def Let_def)

lemmas sample_simps =
  sample_env_def sample_fetch_def sample_base_def sample_parse_def sample_texts_def
  dispatch_request_def ue_request_def UE_BASE_def lit_def resp_ok_def

section \<open>The capture protocol\<close>

text \<open>
  Once the dispatch was accepted, the file was read and its content parsed to an object,
  the outcome is decided by the two fields of that object, and the three effects have
  happened in order.
\<close>

lemma capture_retrieved:
  assumes "fetch env tr (dispatch_request env code) = Inr resp"
    and "resp_text resp = Inr body" and "resp_ok resp"
    and "execSync env (tr @ [Fetch (dispatch_request env code), SetTimeout 200])
           (ssh_command env RESULT_FILE) = Inr raw"
    and "JSON_parse env raw = Inr (JObject fs)"
  shows "execPythonWithOutput env code tr =
     (if truthy env (map_of fs (lit ''error'')) then
        (case map_of fs (lit ''error'') of
           None \<Rightarrow> Inl (JsError PlainError [])
         | Some v \<Rightarrow>
             (case ToString env v of Inl e \<Rightarrow> Inl e | Inr m \<Rightarrow> Inl (JsError PlainError m)))
      else
        Inr (case map_of fs (lit ''output'') of
               None \<Rightarrow> JString (lit ''(no output)'')
             | Some v \<Rightarrow> if truthy env (map_of fs (lit ''output'')) then v
                         else JString (lit ''(no output)'')),
      tr @ capture_events env code)"
proof -
  have d: "ue env (lit ''PUT'') (lit ''/remote/object/call'') (Some (harness_call env code)) tr =
     (Inr (case JSON_parse env body of
             Inr v \<Rightarrow> v
           | Inl _ \<Rightarrow> if body \<noteq> [] then JString body else JNull),
      tr @ [Fetch (dispatch_request env code)])"
    using ue_success [OF assms(1) [unfolded dispatch_request_def] assms(2,3)]
    by (simp add: dispatch_request_def)
  show ?thesis
    using assms(4,5)
    by (simp add: execPythonWithOutput_def d sshRead_def Let_def capture_events_def
          split: option.splits sum.splits)
qed

text \<open>
  C1 (as amended). When the retrieved result record has an \<open>error\<close> field that is a
  non-empty string, \<open>execPythonWithOutput\<close> throws an error whose message is that
  string, and so returns no output. The source tests \<open>if (result.error)\<close>, which is
  truthiness, not a comparison with \<open>null\<close>.
\<close>

theorem capture_fails_with_error_trace:
  assumes "fetch env tr (dispatch_request env code) = Inr resp"
    and "resp_text resp = Inr body" and "resp_ok resp"
    and "execSync env (tr @ [Fetch (dispatch_request env code), SetTimeout 200])
           (ssh_command env RESULT_FILE) = Inr raw"
    and "JSON_parse env raw = Inr (JObject fs)"
    and "map_of fs (lit ''error'') = Some (JString trace)"
    and "trace \<noteq> []"
  shows "fst (execPythonWithOutput env code tr) = Inl (JsError PlainError trace)"
  using assms(6,7) by (simp add: capture_retrieved [OF assms(1-5)])

theorem capture_fails_with_error_trace_witness:
  "fst (execPythonWithOutput
          (sample_env (lit ''{\"output\": \"\", \"error\": \"NameError: name x is not defined\"}''))
          (lit ''print(x)'') [])
   = Inl (JsError PlainError (lit ''NameError: name x is not defined''))"
  by (rule capture_fails_with_error_trace
       [where resp = "\<lparr>resp_status = 200, resp_text = Inr (lit ''{}'')\<rparr>"
          and body = "lit ''{}''"
          and raw = "lit ''{\"output\": \"\", \"error\": \"NameError: name x is not defined\"}''"
          and fs = "[(lit ''output'', JString []),
                     (lit ''error'', JString (lit ''NameError: name x is not defined''))]"])
     (simp_all add: sample_simps)

text \<open>
  C1 as stated fails: a result record whose \<open>error\<close> field is the empty string (which is
  not \<open>null\<close>) does not make the operation fail; the output is returned.
\<close>

theorem capture_empty_error_counterexample:
  "JSON_parse (sample_env (lit ''{\"output\": \"partial\", \"error\": \"\"}''))
       (lit ''{\"output\": \"partial\", \"error\": \"\"}'')
     = Inr (JObject [(lit ''output'', JString (lit ''partial'')), (lit ''error'', JString [])])
   \<and> fst (execPythonWithOutput (sample_env (lit ''{\"output\": \"partial\", \"error\": \"\"}''))
          (lit ''print(1)'') [])
     = Inr (JString (lit ''partial''))"
proof -
  let ?raw = "lit ''{\"output\": \"partial\", \"error\": \"\"}''"
  let ?fs = "[(lit ''output'', JString (lit ''partial'')), (lit ''error'', JString [])]"
  have p: "JSON_parse (sample_env ?raw) ?raw = Inr (JObject ?fs)"
    by (simp add: sample_simps)
  have "execPythonWithOutput (sample_env ?raw) (lit ''print(1)'') [] =
     (Inr (JString (lit ''partial'')), [] @ capture_events (sample_env ?raw) (lit ''print(1)''))"
    by (subst capture_retrieved
         [where resp = "\<lparr>resp_status = 200, resp_text = Inr (lit ''{}'')\<rparr>"
            and body = "lit ''{}''" and raw = ?raw and fs = ?fs])
       (simp_all add: sample_simps)
  with p show ?thesis by simp
qed

text \<open>
  C2. When the retrieved result record has \<open>error\<close> equal to \<open>null\<close> and \<open>output\<close>
  equal to the empty string, \<open>execPythonWithOutput\<close> returns the string
  \<open>(no output)\<close>, which is not the empty string.
\<close>

theorem capture_no_output_sentinel:
  assumes "fetch env tr (dispatch_request env code) = Inr resp"
    and "resp_text resp = Inr body" and "resp_ok resp"
    and "execSync env (tr @ [Fetch (dispatch_request env code), SetTimeout 200])
           (ssh_command env RESULT_FILE) = Inr raw"
    and "JSON_parse env raw = Inr (JObject fs)"
    and "map_of fs (lit ''error'') = Some JNull"
    and "map_of fs (lit ''output'') = Some (JString [])"
  shows "fst (execPythonWithOutput env code tr) = Inr (JString (lit ''(no output)''))
         \<and> lit ''(no output)'' \<noteq> []"
  using assms(6,7) by (simp add: capture_retrieved [OF assms(1-5)] lit_def)

theorem capture_no_output_sentinel_witness:
  "fst (execPythonWithOutput (sample_env (lit ''{\"output\": \"\", \"error\": null}''))
          (lit ''x = 1'') [])
   = Inr (JString (lit ''(no output)''))"
proof -
  let ?raw = "lit ''{\"output\": \"\", \"error\": null}''"
  have "fst (execPythonWithOutput (sample_env ?raw) (lit ''x = 1'') [])
          = Inr (JString (lit ''(no output)'')) \<and> lit ''(no output)'' \<noteq> []"
    by (rule capture_no_output_sentinel
         [where resp = "\<lparr>resp_status = 200, resp_text = Inr (lit ''{}'')\<rparr>"
            and body = "lit ''{}''" and raw = ?raw
            and fs = "[(lit ''output'', JString []), (lit ''error'', JNull)]"])
       (simp_all add: sample_simps)
  then show ?thesis by simp
qed

lemma dispatch_request_spelt:
  "dispatch_request env code =
     \<lparr>req_url = lit ''http://'' @ UE_HOST env @ lit '':'' @ UE_PORT env
                  @ lit ''/remote/object/call'',
       req_method = lit ''PUT'',
       req_headers = [(lit ''Content-Type'', lit ''application/json'')],
       req_body = Some (JSON_stringify env
         (JObject
            [(lit ''objectPath'',
                JString (lit ''/Script/PythonScriptPlugin.Default__PythonScriptLibrary'')),
             (lit ''functionName'', JString (lit ''ExecutePythonCommand'')),
             (lit ''parameters'',
                JObject
                  [(lit ''PythonCommand'',
                      JString
                        (lit ''import sys, io, json, traceback\<newline>''
                         @ lit ''_nora_stdout = sys.stdout\<newline>''
                         @ lit ''_nora_buf = io.StringIO()\<newline>''
                         @ lit ''sys.stdout = _nora_buf\<newline>''
                         @ lit ''_nora_err = None\<newline>''
                         @ lit ''try:\<newline>''
                         @ lit ''    exec('' @ JSON_stringify env (JString code)
                         @ lit '')\<newline>''
                         @ lit ''except Exception as e:\<newline>''
                         @ lit ''    _nora_err = traceback.format_exc()\<newline>''
                         @ lit ''finally:\<newline>''
                         @ lit ''    sys.stdout = _nora_stdout\<newline>''
                         @ lit ''    _nora_out = _nora_buf.getvalue()\<newline>''
                         @ lit ''    with open(''
                         @ JSON_stringify env (JString (lit ''C:/tmp/nora_mcp_result.json''))
                         @ lit '', '' @ [0x27] @ lit ''w'' @ [0x27] @ lit '', encoding=''
                         @ [0x27] @ lit ''utf-8'' @ [0x27] @ lit '') as f:\<newline>''
                         @ lit ''        json.dump({\"output\": _nora_out, ''
                         @ lit ''\"error\": _nora_err}, f)''))])]))\<rparr>"
  by (simp add: dispatch_request_def ue_request_def UE_BASE_def harness_call_def wrapper_def
        RESULT_FILE_def lit_def)

lemma ssh_command_spelt:
  "ssh_command env RESULT_FILE =
     lit ''ssh -o ConnectTimeout=3 -o StrictHostKeyChecking=no '' @ UE_SSH_USER env
             @ lit ''@'' @ UE_HOST env
             @ lit '' \"type C:'' @ [0x5C] @ lit ''tmp'' @ [0x5C] @ lit ''nora_mcp_result.json\"''"
  by (simp add: ssh_command_def RESULT_FILE_def lit_def)

text \<open>
  C3. Let \<open>req\<close> be the \<open>PUT\<close> to \<open>/remote/object/call\<close> whose body asks
  \<open>ExecutePythonCommand\<close> to run the harness around the code (the harness text is written
  out below), and \<open>cmd\<close> the \<open>ssh\<close> command that types the result file on the host.
  When the endpoint accepts \<open>req\<close> and the code printed something and raised nothing (the
  record read back has \<open>error\<close> equal to \<open>null\<close> and a non-empty \<open>output\<close>), the
  operation adds exactly three effects, in this order: the one request \<open>req\<close>, one
  \<open>setTimeout\<close> of 200 ms, one \<open>execSync\<close> of \<open>cmd\<close>; and it returns the captured
  output.
\<close>

theorem capture_sequence:
  assumes "req =
     \<lparr>req_url = lit ''http://'' @ UE_HOST env @ lit '':'' @ UE_PORT env
                  @ lit ''/remote/object/call'',
       req_method = lit ''PUT'',
       req_headers = [(lit ''Content-Type'', lit ''application/json'')],
       req_body = Some (JSON_stringify env
         (JObject
            [(lit ''objectPath'',
                JString (lit ''/Script/PythonScriptPlugin.Default__PythonScriptLibrary'')),
             (lit ''functionName'', JString (lit ''ExecutePythonCommand'')),
             (lit ''parameters'',
                JObject
                  [(lit ''PythonCommand'',
                      JString
                        (lit ''import sys, io, json, traceback\<newline>''
                         @ lit ''_nora_stdout = sys.stdout\<newline>''
                         @ lit ''_nora_buf = io.StringIO()\<newline>''
                         @ lit ''sys.stdout = _nora_buf\<newline>''
                         @ lit ''_nora_err = None\<newline>''
                         @ lit ''try:\<newline>''
                         @ lit ''    exec('' @ JSON_stringify env (JString code)
                         @ lit '')\<newline>''
                         @ lit ''except Exception as e:\<newline>''
                         @ lit ''    _nora_err = traceback.format_exc()\<newline>''
                         @ lit ''finally:\<newline>''
                         @ lit ''    sys.stdout = _nora_stdout\<newline>''
                         @ lit ''    _nora_out = _nora_buf.getvalue()\<newline>''
                         @ lit ''    with open(''
                         @ JSON_stringify env (JString (lit ''C:/tmp/nora_mcp_result.json''))
                         @ lit '', '' @ [0x27] @ lit ''w'' @ [0x27] @ lit '', encoding=''
                         @ [0x27] @ lit ''utf-8'' @ [0x27] @ lit '') as f:\<newline>''
                         @ lit ''        json.dump({\"output\": _nora_out, ''
                         @ lit ''\"error\": _nora_err}, f)''))])]))\<rparr>"
    and "cmd =
     lit ''ssh -o ConnectTimeout=3 -o StrictHostKeyChecking=no '' @ UE_SSH_USER env
             @ lit ''@'' @ UE_HOST env
             @ lit '' \"type C:'' @ [0x5C] @ lit ''tmp'' @ [0x5C] @ lit ''nora_mcp_result.json\"''"
    and "fetch env tr req = Inr resp"
    and "resp_text resp = Inr body" and "resp_ok resp"
    and "execSync env (tr @ [Fetch req, SetTimeout 200]) cmd = Inr raw"
    and "JSON_parse env raw = Inr (JObject fs)"
    and "map_of fs (lit ''error'') = Some JNull"
    and "map_of fs (lit ''output'') = Some (JString out)"
    and "out \<noteq> []"
  shows "execPythonWithOutput env code tr =
     (Inr (JString out),
      tr @ [Fetch req, SetTimeout 200, ExecSync cmd 10000 (lit ''utf-8'')])"
proof -
  have r: "req = dispatch_request env code"
    using assms(1) by (simp only: dispatch_request_spelt)
  have c: "cmd = ssh_command env RESULT_FILE"
    using assms(2) by (simp only: ssh_command_spelt)
  show ?thesis
    using assms(8-10)
      capture_retrieved [OF assms(3) [unfolded r] assms(4,5) assms(6) [unfolded r c] assms(7)]
    by (simp add: capture_events_def r c)
qed

theorem capture_sequence_witness:
  "execPythonWithOutput
     (sample_env (lit ''{\"output\": \"hi'' @ [0x5C] @ lit ''n\", \"error\": null}''))
     (lit ''print(\"hi\")'') []
   = (Inr (JString (lit ''hi\<newline>'')),
      [Fetch
         \<lparr>req_url = lit ''http://127.0.0.1:30010/remote/object/call'',
            req_method = lit ''PUT'',
            req_headers = [(lit ''Content-Type'', lit ''application/json'')],
            req_body = Some
              (lit ''{\"objectPath\":\"/Script/PythonScriptPlugin.Default__PythonScriptLibrary\",\"functionName\":\"ExecutePythonCommand\",\"parameters\":{\"PythonCommand\":\"import sys, io, json, traceback''
               @ [0x5C] @ lit ''n_nora_stdout = sys.stdout'' @ [0x5C]
               @ lit ''n_nora_buf = io.StringIO()'' @ [0x5C] @ lit ''nsys.stdout = _nora_buf''
               @ [0x5C] @ lit ''n_nora_err = None'' @ [0x5C] @ lit ''ntry:'' @ [0x5C]
               @ lit ''n    exec('' @ [0x5C] @ lit ''\"print('' @ [0x5C] @ [0x5C] @ [0x5C]
               @ lit ''\"hi'' @ [0x5C] @ [0x5C] @ [0x5C] @ lit ''\")'' @ [0x5C] @ lit ''\")''
               @ [0x5C] @ lit ''nexcept Exception as e:'' @ [0x5C]
               @ lit ''n    _nora_err = traceback.format_exc()'' @ [0x5C] @ lit ''nfinally:''
               @ [0x5C] @ lit ''n    sys.stdout = _nora_stdout'' @ [0x5C]
               @ lit ''n    _nora_out = _nora_buf.getvalue()'' @ [0x5C] @ lit ''n    with open(''
               @ [0x5C] @ lit ''\"C:/tmp/nora_mcp_result.json'' @ [0x5C] @ lit ''\", '' @ [0x27]
               @ lit ''w'' @ [0x27] @ lit '', encoding='' @ [0x27] @ lit ''utf-8'' @ [0x27]
               @ lit '') as f:'' @ [0x5C] @ lit ''n        json.dump({'' @ [0x5C]
               @ lit ''\"output'' @ [0x5C] @ lit ''\": _nora_out, '' @ [0x5C] @ lit ''\"error''
               @ [0x5C] @ lit ''\": _nora_err}, f)\"}}'')\<rparr>,
       SetTimeout 200,
       ExecSync
         (lit ''ssh -o ConnectTimeout=3 -o StrictHostKeyChecking=no claude@127.0.0.1 \"type C:''
          @ [0x5C] @ lit ''tmp'' @ [0x5C] @ lit ''nora_mcp_result.json\"'')
         10000 (lit ''utf-8'')])"
proof -
  let ?E = "sample_env (lit ''{\"output\": \"hi'' @ [0x5C] @ lit ''n\", \"error\": null}'') :: int env"
  let ?req = "\<lparr>req_url = lit ''http://127.0.0.1:30010/remote/object/call'',
            req_method = lit ''PUT'',
            req_headers = [(lit ''Content-Type'', lit ''application/json'')],
            req_body = Some
              (lit ''{\"objectPath\":\"/Script/PythonScriptPlugin.Default__PythonScriptLibrary\",\"functionName\":\"ExecutePythonCommand\",\"parameters\":{\"PythonCommand\":\"import sys, io, json, traceback''
               @ [0x5C] @ lit ''n_nora_stdout = sys.stdout'' @ [0x5C]
               @ lit ''n_nora_buf = io.StringIO()'' @ [0x5C] @ lit ''nsys.stdout = _nora_buf''
               @ [0x5C] @ lit ''n_nora_err = None'' @ [0x5C] @ lit ''ntry:'' @ [0x5C]
               @ lit ''n    exec('' @ [0x5C] @ lit ''\"print('' @ [0x5C] @ [0x5C] @ [0x5C]
               @ lit ''\"hi'' @ [0x5C] @ [0x5C] @ [0x5C] @ lit ''\")'' @ [0x5C] @ lit ''\")''
               @ [0x5C] @ lit ''nexcept Exception as e:'' @ [0x5C]
               @ lit ''n    _nora_err = traceback.format_exc()'' @ [0x5C] @ lit ''nfinally:''
               @ [0x5C] @ lit ''n    sys.stdout = _nora_stdout'' @ [0x5C]
               @ lit ''n    _nora_out = _nora_buf.getvalue()'' @ [0x5C] @ lit ''n    with open(''
               @ [0x5C] @ lit ''\"C:/tmp/nora_mcp_result.json'' @ [0x5C] @ lit ''\", '' @ [0x27]
               @ lit ''w'' @ [0x27] @ lit '', encoding='' @ [0x27] @ lit ''utf-8'' @ [0x27]
               @ lit '') as f:'' @ [0x5C] @ lit ''n        json.dump({'' @ [0x5C]
               @ lit ''\"output'' @ [0x5C] @ lit ''\": _nora_out, '' @ [0x5C] @ lit ''\"error''
               @ [0x5C] @ lit ''\": _nora_err}, f)\"}}'')\<rparr>"
  let ?cmd = "lit ''ssh -o ConnectTimeout=3 -o StrictHostKeyChecking=no claude@127.0.0.1 \"type C:''
          @ [0x5C] @ lit ''tmp'' @ [0x5C] @ lit ''nora_mcp_result.json\"''"
  have "execPythonWithOutput ?E (lit ''print(\"hi\")'') []
          = (Inr (JString (lit ''hi\<newline>'')),
             [] @ [Fetch ?req, SetTimeout 200, ExecSync ?cmd 10000 (lit ''utf-8'')])"
    by (rule capture_sequence
         [where resp = "\<lparr>resp_status = 200, resp_text = Inr (lit ''{}'')\<rparr>"
            and body = "lit ''{}''"
            and raw = "lit ''{\"output\": \"hi'' @ [0x5C] @ lit ''n\", \"error\": null}''"
            and fs = "[(lit ''output'', JString (lit ''hi\<newline>'')), (lit ''error'', JNull)]"])
       (simp_all add: sample_simps sample_quote_def)
  then show ?thesis by simp
qed

section \<open>Outcomes of the remote invoker\<close>

text \<open>
  C4. When the response is not ok, \<open>ue\<close> throws an error whose message is
  \<open>UE\<close>, the method, the path, an arrow, the status code, a colon and the first 500
  code units of the body: never more of the body than that, and the whole body when it is
  no longer than 500.
\<close>

theorem ue_failure_truncated:
  assumes "fetch env tr (ue_request env method path body) = Inr resp"
    and "resp_text resp = Inr text_body"
    and "\<not> resp_ok resp"
  shows "fst (ue env method path body tr) =
           Inl (JsError PlainError
             (lit ''UE '' @ method @ lit '' '' @ path @ [0x20, 0x2192, 0x20]
                @ show_nat (resp_status resp) @ lit '': '' @ take 500 text_body))
         \<and> length (take 500 text_body) \<le> 500
         \<and> (length text_body \<le> 500 \<longrightarrow> take 500 text_body = text_body)"
  by (simp add: ue_failure [OF assms] ue_failure_message_def)

theorem ue_failure_truncated_witness:
  "fst (ue (sample_env []) (lit ''GET'') (lit ''/remote/info'') None []) =
     Inl (JsError PlainError
       (lit ''UE GET /remote/info '' @ [0x2192] @ lit '' 404: '' @ replicate 500 0x78))"
proof -
  have "fst (ue (sample_env []) (lit ''GET'') (lit ''/remote/info'') None []) =
           Inl (JsError PlainError
             (lit ''UE '' @ lit ''GET'' @ lit '' '' @ lit ''/remote/info'' @ [0x20, 0x2192, 0x20]
                @ show_nat (resp_status \<lparr>resp_status = 404, resp_text = Inr (replicate 600 0x78)\<rparr>)
                @ lit '': '' @ take 500 (replicate 600 0x78)))
         \<and> length (take 500 (replicate 600 (0x78 :: 16 word))) \<le> 500
         \<and> (length (replicate 600 (0x78 :: 16 word)) \<le> 500
              \<longrightarrow> take 500 (replicate 600 0x78) = replicate 600 (0x78 :: 16 word))"
    by (rule ue_failure_truncated) (simp_all add: sample_simps)
  then show ?thesis by (simp add: lit_def)
qed

text \<open>
  C5. When the response is ok, \<open>ue\<close> returns the value \<open>JSON.parse\<close> gives for the
  body; when \<open>JSON.parse\<close> throws, it returns the body text itself if that is not empty
  and \<open>null\<close> if it is empty (\<open>JSON.parse\<close> throws on the empty text).
\<close>

theorem ue_success_value:
  assumes "fetch env tr (ue_request env method path body) = Inr resp"
    and "resp_text resp = Inr text_body"
    and "resp_ok resp"
  shows "(\<forall>v. JSON_parse env text_body = Inr v \<longrightarrow> fst (ue env method path body tr) = Inr v)
       \<and> (\<forall>e. JSON_parse env text_body = Inl e \<and> text_body \<noteq> []
              \<longrightarrow> fst (ue env method path body tr) = Inr (JString text_body))
       \<and> (\<forall>e. JSON_parse env text_body = Inl e \<and> text_body = []
              \<longrightarrow> fst (ue env method path body tr) = Inr JNull)"
  by (auto simp add: ue_success [OF assms])

theorem ue_success_value_witness:
  "fst (ue (sample_env []) (lit ''PUT'') (lit ''/remote/object/property'') None [])
     = Inr (JObject [(lit ''X'', JNum 1), (lit ''Y'', JNum 2)])
   \<and> fst (ue (sample_env []) (lit ''PUT'') (lit ''/remote/search/assets'') None [])
     = Inr (JString (lit ''OK''))
   \<and> fst (ue (sample_env []) (lit ''PUT'') (lit ''/remote/object/describe'') None []) = Inr JNull"
proof -
  let ?E = "sample_env [] :: int env"
  have a: "fetch ?E [] (ue_request ?E (lit ''PUT'') (lit ''/remote/object/property'') None)
             = Inr \<lparr>resp_status = 200, resp_text = Inr (lit ''{\"X\":1,\"Y\":2}'')\<rparr>"
    by (simp add: sample_simps)
  have b: "fetch ?E [] (ue_request ?E (lit ''PUT'') (lit ''/remote/search/assets'') None)
             = Inr \<lparr>resp_status = 200, resp_text = Inr (lit ''OK'')\<rparr>"
    by (simp add: sample_simps)
  have c: "fetch ?E [] (ue_request ?E (lit ''PUT'') (lit ''/remote/object/describe'') None)
             = Inr \<lparr>resp_status = 200, resp_text = Inr []\<rparr>"
    by (simp add: sample_simps)
  have pa: "JSON_parse ?E (lit ''{\"X\":1,\"Y\":2}'')
              = Inr (JObject [(lit ''X'', JNum 1), (lit ''Y'', JNum 2)])"
    by (simp add: sample_simps)
  have pb: "JSON_parse ?E (lit ''OK'')
              = Inl (JsError SyntaxError (lit ''Unexpected token or end of JSON input''))
            \<and> lit ''OK'' \<noteq> []"
    by (simp add: sample_simps)
  have pc: "JSON_parse ?E []
              = Inl (JsError SyntaxError (lit ''Unexpected token or end of JSON input''))
            \<and> ([] :: jsstring) = []"
    by (simp add: sample_simps)
  from ue_success_value [OF a, of "lit ''{\"X\":1,\"Y\":2}''"] pa
  have 1: "fst (ue ?E (lit ''PUT'') (lit ''/remote/object/property'') None [])
             = Inr (JObject [(lit ''X'', JNum 1), (lit ''Y'', JNum 2)])"
    by (simp add: resp_ok_def)
  from ue_success_value [OF b, of "lit ''OK''"] pb
  have 2: "fst (ue ?E (lit ''PUT'') (lit ''/remote/search/assets'') None [])
             = Inr (JString (lit ''OK''))"
    by (simp add: resp_ok_def)
  from ue_success_value [OF c, of "[]"] pc
  have 3: "fst (ue ?E (lit ''PUT'') (lit ''/remote/object/describe'') None []) = Inr JNull"
    by (simp add: resp_ok_def)
  from 1 2 3 show ?thesis by simp
qed

section \<open>Tool handlers\<close>

lemma ok_ue_success:
  assumes "fetch env tr (ue_request env m p b) = Inr resp"
    and "resp_text resp = Inr body" and "resp_ok resp"
    and "JSON_parse env body = Inr v"
  shows "try_catch (ok_ue env m p b tr) = (ok env v, tr @ [Fetch (ue_request env m p b)])"
  using assms(4) by (simp add: ok_ue_def try_catch_def ue_success [OF assms(1-3)])

lemma ok_ue_trace: "snd (try_catch (ok_ue env m p b tr)) = tr @ [Fetch (ue_request env m p b)]"
proof -
  obtain r tr' where u: "ue env m p b tr = (r, tr')" by (cases "ue env m p b tr")
  with ue_trace [of env m p b tr] have "tr' = tr @ [Fetch (ue_request env m p b)]" by simp
  with u show ?thesis by (cases r) (simp_all add: ok_ue_def try_catch_def)
qed

text \<open>
  C6. Every call of \<open>ue_get_property\<close> performs exactly one effect: a \<open>PUT\<close> to
  \<open>/remote/object/property\<close> whose body is the object with \<open>objectPath\<close>,
  \<open>access = READ_ACCESS\<close> and \<open>propertyName\<close>. When the response is ok and its body is
  JSON, the handler hands the parsed body, as it is, to \<open>ok\<close>: the result carries no
  error flag and one text item, which is the value itself when it is a string and its
  \<open>JSON.stringify\<close> with indent 2 otherwise.
\<close>

theorem get_property_one_put_returns_body:
  "snd (ue_get_property env object_path property_name tr) =
     tr @ [Fetch \<lparr>req_url = UE_BASE env @ lit ''/remote/object/property'',
                  req_method = lit ''PUT'',
                  req_headers = [(lit ''Content-Type'', lit ''application/json'')],
                  req_body = Some (JSON_stringify env
                    (JObject [(lit ''objectPath'', JString object_path),
                              (lit ''access'', JString (lit ''READ_ACCESS'')),
                              (lit ''propertyName'', JString property_name)]))\<rparr>]
   \<and> (\<forall>resp text_body v.
         fetch env tr (ue_request env (lit ''PUT'') (lit ''/remote/object/property'')
            (Some (get_property_body object_path property_name))) = Inr resp
         \<and> resp_text resp = Inr text_body \<and> resp_ok resp
         \<and> JSON_parse env text_body = Inr v
       \<longrightarrow> fst (ue_get_property env object_path property_name tr) = ok env v
           \<and> \<not> isError (ok env v)
           \<and> content (ok env v) =
               [TextContent (case v of JString s \<Rightarrow> s | _ \<Rightarrow> JSON_stringify_indent env v)])"
proof -
  have t: "snd (ue_get_property env object_path property_name tr) =
     tr @ [Fetch (ue_request env (lit ''PUT'') (lit ''/remote/object/property'')
             (Some (get_property_body object_path property_name)))]"
    by (simp add: ue_get_property_def ue_get_property_try_def ok_ue_trace)
  have s: "fst (ue_get_property env object_path property_name tr) = ok env v"
    if "fetch env tr (ue_request env (lit ''PUT'') (lit ''/remote/object/property'')
            (Some (get_property_body object_path property_name))) = Inr resp"
      and "resp_text resp = Inr text_body" and "resp_ok resp"
      and "JSON_parse env text_body = Inr v" for resp text_body v
    using ok_ue_success [OF that]
    by (simp add: ue_get_property_def ue_get_property_try_def)
  from t s show ?thesis
    by (simp add: ue_request_def get_property_body_def ok_def)
qed

theorem get_property_one_put_returns_body_witness:
  "fst (ue_get_property (sample_env []) (lit ''/Game/Maps/Main.Main:PersistentLevel.Cube'')
          (lit ''RelativeLocation'') [])
     = ok (sample_env []) (JObject [(lit ''X'', JNum 1), (lit ''Y'', JNum 2)])
   \<and> length (snd (ue_get_property (sample_env [])
          (lit ''/Game/Maps/Main.Main:PersistentLevel.Cube'') (lit ''RelativeLocation'') [])) = 1"
proof -
  let ?E = "sample_env [] :: int env"
  let ?r = "\<lparr>resp_status = 200, resp_text = Inr (lit ''{\"X\":1,\"Y\":2}'')\<rparr>"
  have a: "fetch ?E [] (ue_request ?E (lit ''PUT'') (lit ''/remote/object/property'')
             (Some (get_property_body (lit ''/Game/Maps/Main.Main:PersistentLevel.Cube'')
                (lit ''RelativeLocation'')))) = Inr ?r
           \<and> resp_text ?r = Inr (lit ''{\"X\":1,\"Y\":2}'') \<and> resp_ok ?r
           \<and> JSON_parse ?E (lit ''{\"X\":1,\"Y\":2}'')
              = Inr (JObject [(lit ''X'', JNum 1), (lit ''Y'', JNum 2)])"
    by (simp add: sample_simps)
  note g = get_property_one_put_returns_body
             [of ?E "lit ''/Game/Maps/Main.Main:PersistentLevel.Cube''"
                 "lit ''RelativeLocation''" "[]"]
  from g [THEN conjunct2, rule_format, OF a] g [THEN conjunct1]
  show ?thesis by simp
qed

text \<open>
  C7 (as amended). When the \<open>parameters\<close> string of \<open>ue_call_function\<close> is not empty
  and \<open>JSON.parse\<close> throws on it, or when \<open>JSON.parse\<close> throws on the \<open>requests\<close>
  string of \<open>ue_batch\<close>, the handler returns an error result that quotes the string (for
  \<open>ue_batch\<close> its first 200 code units) and performs no effect at all. An empty
  \<open>parameters\<close> string is treated by \<open>ue_call_function\<close> as an absent one: the call is
  issued with \<open>parameters = {}\<close>.
\<close>

theorem malformed_json_rejected_before_transport:
  "(parameters \<noteq> [] \<and> JSON_parse env parameters = Inl e \<longrightarrow>
      ue_call_function env object_path function_name (Some parameters) generate_transaction tr =
        (\<lparr>content = [TextContent (lit ''Error: Invalid JSON in parameters: '' @ parameters)],
          isError = True\<rparr>, tr))
   \<and> (JSON_parse env requests = Inl e' \<longrightarrow>
      ue_batch env requests tr =
        (\<lparr>content = [TextContent (lit ''Error: Invalid JSON array: '' @ take 200 requests)],
          isError = True\<rparr>, tr))
   \<and> ue_call_function env object_path function_name (Some []) generate_transaction tr =
       ue_call_function env object_path function_name None generate_transaction tr
   \<and> snd (ue_call_function env object_path function_name (Some []) generate_transaction tr) =
       tr @ [Fetch \<lparr>req_url = UE_BASE env @ lit ''/remote/object/call'',
                    req_method = lit ''PUT'',
                    req_headers = [(lit ''Content-Type'', lit ''application/json'')],
                    req_body = Some (JSON_stringify env
                      (JObject [(lit ''objectPath'', JString object_path),
                                (lit ''functionName'', JString function_name),
                                (lit ''parameters'', JObject []),
                                (lit ''generateTransaction'',
                                   JBool generate_transaction)]))\<rparr>]"
proof -
  have a: "parameters \<noteq> [] \<and> JSON_parse env parameters = Inl e \<longrightarrow>
      ue_call_function env object_path function_name (Some parameters) generate_transaction tr =
        (\<lparr>content = [TextContent (lit ''Error: Invalid JSON in parameters: '' @ parameters)],
          isError = True\<rparr>, tr)"
    by (simp add: ue_call_function_def ue_call_function_try_def try_catch_def err_def lit_def)
  have b: "JSON_parse env requests = Inl e' \<longrightarrow>
      ue_batch env requests tr =
        (\<lparr>content = [TextContent (lit ''Error: Invalid JSON array: '' @ take 200 requests)],
          isError = True\<rparr>, tr)"
    by (simp add: ue_batch_def ue_batch_try_def try_catch_def err_def lit_def)
  have c: "ue_call_function env object_path function_name (Some []) generate_transaction tr =
       ue_call_function env object_path function_name None generate_transaction tr"
    by (simp add: ue_call_function_def ue_call_function_try_def)
  have d: "snd (ue_call_function env object_path function_name (Some []) generate_transaction tr) =
       tr @ [Fetch (ue_request env (lit ''PUT'') (lit ''/remote/object/call'')
                (Some (call_function_body object_path function_name (JObject [])
                   generate_transaction)))]"
    by (simp add: ue_call_function_def ue_call_function_try_def ok_ue_trace)
  from a b c d show ?thesis
    by (simp only: ue_request_def call_function_body_def option.map)
qed

theorem malformed_json_rejected_before_transport_witness:
  "ue_call_function (sample_env []) (lit ''/Game/A'') (lit ''SetActorLocation'')
       (Some (lit ''{bad'')) True []
     = (\<lparr>content = [TextContent (lit ''Error: Invalid JSON in parameters: {bad'')],
         isError = True\<rparr>, [])
   \<and> ue_batch (sample_env []) (lit ''[bad'') []
     = (\<lparr>content = [TextContent (lit ''Error: Invalid JSON array: [bad'')],
         isError = True\<rparr>, [])"
proof -
  let ?E = "sample_env [] :: int env"
  let ?e = "JsError SyntaxError (lit ''Unexpected token or end of JSON input'')"
  have a: "lit ''{bad'' \<noteq> [] \<and> JSON_parse ?E (lit ''{bad'') = Inl ?e"
    by (simp add: sample_simps)
  have b: "JSON_parse ?E (lit ''[bad'') = Inl ?e"
    by (simp add: sample_simps)
  from malformed_json_rejected_before_transport
         [of "lit ''{bad''" ?E ?e "lit ''/Game/A''" "lit ''SetActorLocation''" True "[]"
             "lit ''[bad''" ?e] a b
  show ?thesis by (simp add: lit_def)
qed

text \<open>
  C7 as stated fails for \<open>ue_call_function\<close>: the empty string is no JSON text, but
  \<open>if (parameters)\<close> skips it, so the call goes out with \<open>parameters = {}\<close> and the
  result is no error.
\<close>

theorem call_function_empty_parameters_counterexample:
  "JSON_parse (sample_env []) []
     = Inl (JsError SyntaxError (lit ''Unexpected token or end of JSON input''))
   \<and> ue_call_function (sample_env []) (lit ''/Game/A'') (lit ''SetActorLocation'') (Some []) True []
     = (ok (sample_env []) (JObject []),
        [Fetch (ue_request (sample_env []) (lit ''PUT'') (lit ''/remote/object/call'')
           (Some (call_function_body (lit ''/Game/A'') (lit ''SetActorLocation'') (JObject [])
              True)))])
   \<and> \<not> isError (ok (sample_env []) (JObject []))"
proof -
  let ?E = "sample_env [] :: int env"
  let ?b = "Some (call_function_body (lit ''/Game/A'') (lit ''SetActorLocation'') (JObject []) True)
              :: int json option"
  have p: "JSON_parse ?E [] = Inl (JsError SyntaxError (lit ''Unexpected token or end of JSON input''))"
    by (simp add: sample_simps)
  have a: "fetch ?E [] (ue_request ?E (lit ''PUT'') (lit ''/remote/object/call'') ?b)
             = Inr \<lparr>resp_status = 200, resp_text = Inr (lit ''{}'')\<rparr>"
    by (simp add: sample_simps)
  have q: "JSON_parse ?E (lit ''{}'') = Inr (JObject [])"
    by (simp add: sample_simps)
  have "try_catch (ok_ue ?E (lit ''PUT'') (lit ''/remote/object/call'') ?b [])
          = (ok ?E (JObject []), [] @ [Fetch (ue_request ?E (lit ''PUT'') (lit ''/remote/object/call'') ?b)])"
    by (rule ok_ue_success [OF a _ _ q]) (simp_all add: resp_ok_def)
  then have "ue_call_function ?E (lit ''/Game/A'') (lit ''SetActorLocation'') (Some []) True []
     = (ok ?E (JObject []), [Fetch (ue_request ?E (lit ''PUT'') (lit ''/remote/object/call'') ?b)])"
    by (simp add: ue_call_function_def ue_call_function_try_def)
  with p show ?thesis by (simp add: ok_def)
qed

text \<open>
  C9. When \<open>JSON.parse\<close> throws on the \<open>value\<close> string of \<open>ue_set_property\<close>, the
  handler returns no error of its own: its result is that of the one request it issues,
  whose body carries the string itself as \<open>propertyValue\<close>; when the endpoint answers
  that request with an ok JSON response, the result is that value, without the error flag.
\<close>

theorem set_property_raw_string_forwarded:
  assumes "JSON_parse env val = Inl e"
  shows "ue_set_property env object_path property_name val tr =
           try_catch (ok_ue env (lit ''PUT'') (lit ''/remote/object/property'')
             (Some (JObject [(lit ''objectPath'', JString object_path),
                             (lit ''access'', JString (lit ''WRITE_TRANSACTION_ACCESS'')),
                             (lit ''propertyName'', JString property_name),
                             (lit ''propertyValue'', JString val)])) tr)
       \<and> snd (ue_set_property env object_path property_name val tr) =
           tr @ [Fetch \<lparr>req_url = UE_BASE env @ lit ''/remote/object/property'',
                        req_method = lit ''PUT'',
                        req_headers = [(lit ''Content-Type'', lit ''application/json'')],
                        req_body = Some (JSON_stringify env
                          (JObject [(lit ''objectPath'', JString object_path),
                                    (lit ''access'', JString (lit ''WRITE_TRANSACTION_ACCESS'')),
                                    (lit ''propertyName'', JString property_name),
                                    (lit ''propertyValue'', JString val)]))\<rparr>]
       \<and> (\<forall>resp text_body v.
             fetch env tr (ue_request env (lit ''PUT'') (lit ''/remote/object/property'')
                (Some (set_property_body object_path property_name (JString val)))) = Inr resp
             \<and> resp_text resp = Inr text_body \<and> resp_ok resp
             \<and> JSON_parse env text_body = Inr v
           \<longrightarrow> fst (ue_set_property env object_path property_name val tr) = ok env v
               \<and> \<not> isError (fst (ue_set_property env object_path property_name val tr)))"
proof -
  have d: "ue_set_property env object_path property_name val tr =
     try_catch (ok_ue env (lit ''PUT'') (lit ''/remote/object/property'')
       (Some (set_property_body object_path property_name (JString val))) tr)"
    using assms by (simp add: ue_set_property_def ue_set_property_try_def Let_def)
  have s: "fst (ue_set_property env object_path property_name val tr) = ok env v"
    if "fetch env tr (ue_request env (lit ''PUT'') (lit ''/remote/object/property'')
            (Some (set_property_body object_path property_name (JString val)))) = Inr resp"
      and "resp_text resp = Inr text_body" and "resp_ok resp"
      and "JSON_parse env text_body = Inr v" for resp text_body v
    using ok_ue_success [OF that] by (simp add: d)
  have t: "snd (ue_set_property env object_path property_name val tr) =
     tr @ [Fetch (ue_request env (lit ''PUT'') (lit ''/remote/object/property'')
             (Some (set_property_body object_path property_name (JString val))))]"
    by (simp add: d ok_ue_trace)
  have n: "\<not> isError (ok env v)" for v by (simp add: ok_def)
  from d t s n show ?thesis
    by (simp add: set_property_body_def ue_request_def)
qed


theorem set_property_raw_string_forwarded_witness:
  "ue_set_property (sample_env []) (lit ''/Game/A'') (lit ''Label'') (lit ''hello world'') []
     = (ok (sample_env []) (JObject [(lit ''X'', JNum 1), (lit ''Y'', JNum 2)]),
        [Fetch (ue_request (sample_env []) (lit ''PUT'') (lit ''/remote/object/property'')
           (Some (set_property_body (lit ''/Game/A'') (lit ''Label'')
              (JString (lit ''hello world'')))))])"
proof -
  let ?E = "sample_env [] :: int env"
  let ?r = "\<lparr>resp_status = 200, resp_text = Inr (lit ''{\"X\":1,\"Y\":2}'')\<rparr>"
  have p: "JSON_parse ?E (lit ''hello world'')
             = Inl (JsError SyntaxError (lit ''Unexpected token or end of JSON input''))"
    by (simp add: sample_simps)
  have a: "fetch ?E [] (ue_request ?E (lit ''PUT'') (lit ''/remote/object/property'')
             (Some (set_property_body (lit ''/Game/A'') (lit ''Label'')
                (JString (lit ''hello world''))))) = Inr ?r
           \<and> resp_text ?r = Inr (lit ''{\"X\":1,\"Y\":2}'') \<and> resp_ok ?r
           \<and> JSON_parse ?E (lit ''{\"X\":1,\"Y\":2}'')
              = Inr (JObject [(lit ''X'', JNum 1), (lit ''Y'', JNum 2)])"
    by (simp add: sample_simps)
  note g = set_property_raw_string_forwarded [OF p, of "lit ''/Game/A''" "lit ''Label''" "[]"]
  from g [THEN conjunct2, THEN conjunct2, rule_format, OF a] g [THEN conjunct2, THEN conjunct1]
  show ?thesis
    by (simp add: prod_eq_iff ue_request_def set_property_body_def)
qed

text \<open>
  C10. When the \<open>requests\<close> string of \<open>ue_batch\<close> parses, whatever the parsed value
  is (an array or not), the handler returns no error of its own: its result is that of
  the one request it issues, whose body carries the parsed value as \<open>requests\<close>; when
  the endpoint answers that request with an ok JSON response, the result is that value,
  without the error flag.
\<close>

theorem batch_forwards_any_json:
  assumes "JSON_parse env requests = Inr parsed"
  shows "ue_batch env requests tr =
           try_catch (ok_ue env (lit ''PUT'') (lit ''/remote/batch'')
             (Some (JObject [(lit ''requests'', parsed)])) tr)
       \<and> snd (ue_batch env requests tr) =
           tr @ [Fetch \<lparr>req_url = UE_BASE env @ lit ''/remote/batch'',
                        req_method = lit ''PUT'',
                        req_headers = [(lit ''Content-Type'', lit ''application/json'')],
                        req_body = Some (JSON_stringify env
                          (JObject [(lit ''requests'', parsed)]))\<rparr>]
       \<and> (\<forall>resp text_body v.
             fetch env tr (ue_request env (lit ''PUT'') (lit ''/remote/batch'')
                (Some (batch_body parsed))) = Inr resp
             \<and> resp_text resp = Inr text_body \<and> resp_ok resp
             \<and> JSON_parse env text_body = Inr v
           \<longrightarrow> fst (ue_batch env requests tr) = ok env v
               \<and> \<not> isError (fst (ue_batch env requests tr)))"
proof -
  have d: "ue_batch env requests tr =
     try_catch (ok_ue env (lit ''PUT'') (lit ''/remote/batch'') (Some (batch_body parsed)) tr)"
    using assms by (simp add: ue_batch_def ue_batch_try_def)
  have s: "fst (ue_batch env requests tr) = ok env v"
    if "fetch env tr (ue_request env (lit ''PUT'') (lit ''/remote/batch'')
            (Some (batch_body parsed))) = Inr resp"
      and "resp_text resp = Inr text_body" and "resp_ok resp"
      and "JSON_parse env text_body = Inr v" for resp text_body v
    using ok_ue_success [OF that] by (simp add: d)
  have t: "snd (ue_batch env requests tr) =
     tr @ [Fetch (ue_request env (lit ''PUT'') (lit ''/remote/batch'')
             (Some (batch_body parsed)))]"
    by (simp add: d ok_ue_trace)
  have n: "\<not> isError (ok env v)" for v by (simp add: ok_def)
  from d t s n show ?thesis
    by (simp add: batch_body_def ue_request_def)
qed

theorem batch_forwards_any_json_witness:
  "ue_batch (sample_env []) (lit ''42'') []
     = (ok (sample_env []) (JObject []),
        [Fetch (ue_request (sample_env []) (lit ''PUT'') (lit ''/remote/batch'')
           (Some (JObject [(lit ''requests'', JNum 42)])))])
   \<and> snd (ue_batch (sample_env []) (lit ''{}'') [])
     = [Fetch (ue_request (sample_env []) (lit ''PUT'') (lit ''/remote/batch'')
          (Some (JObject [(lit ''requests'', JObject [])])))]"
proof -
  let ?E = "sample_env [] :: int env"
  let ?r = "\<lparr>resp_status = 200, resp_text = Inr (lit ''{}'')\<rparr>"
  have p: "JSON_parse ?E (lit ''42'') = Inr (JNum 42)"
    by (simp add: sample_simps)
  have q: "JSON_parse ?E (lit ''{}'') = Inr (JObject [])"
    by (simp add: sample_simps)
  have a: "fetch ?E [] (ue_request ?E (lit ''PUT'') (lit ''/remote/batch'')
             (Some (batch_body (JNum 42)))) = Inr ?r
           \<and> resp_text ?r = Inr (lit ''{}'') \<and> resp_ok ?r
           \<and> JSON_parse ?E (lit ''{}'') = Inr (JObject [])"
    by (simp add: sample_simps)
  note g = batch_forwards_any_json [OF p, of "[]"]
  note h = batch_forwards_any_json [OF q, of "[]"]
  from g [THEN conjunct2, THEN conjunct2, rule_format, OF a] g [THEN conjunct2, THEN conjunct1]
    h [THEN conjunct2, THEN conjunct1]
  show ?thesis
    by (simp add: prod_eq_iff ue_request_def)
qed

section \<open>The operation boundary\<close>








































end
